theory Spec2Isabelle
  imports Complex_Main
begin

section \<open>Python strings\<close>

text \<open>
  A Python \<open>str\<close> is a sequence of Unicode code points; it is modelled as a list of
  natural numbers, one per code point, so that \<open>len\<close>, indices and \<open>replace\<close> count
  what Python counts. \<open>S\<close> turns an ASCII literal into such a list.
\<close>

type_synonym pystr = "nat list"

definition S :: "string \<Rightarrow> pystr" where
  "S s = map of_char s"

text \<open>\<open>str.isspace\<close> of a single code point (the Unicode white-space characters).\<close>

definition is_space :: "nat \<Rightarrow> bool" where
  "is_space c \<longleftrightarrow>
     (9 \<le> c \<and> c \<le> 13) \<or> (28 \<le> c \<and> c \<le> 32) \<or> c = 133 \<or> c = 160 \<or> c = 5760 \<or>
     (8192 \<le> c \<and> c \<le> 8202) \<or> c = 8232 \<or> c = 8233 \<or> c = 8239 \<or> c = 8287 \<or> c = 12288"

definition strip :: "pystr \<Rightarrow> pystr" where
  "strip s = rev (dropWhile is_space (rev (dropWhile is_space s)))"

text \<open>\<open>s.startswith(p)\<close>.\<close>

fun startswith :: "pystr \<Rightarrow> pystr \<Rightarrow> bool" where
  "startswith s [] = True"
| "startswith [] (p # ps) = False"
| "startswith (c # cs) (p # ps) = (c = p \<and> startswith cs ps)"

text \<open>\<open>p in s\<close> for strings: \<open>p\<close> occurs as a contiguous piece of \<open>s\<close>.\<close>

fun contains :: "pystr \<Rightarrow> pystr \<Rightarrow> bool" where
  "contains [] p = (p = [])"
| "contains (c # cs) p = (startswith (c # cs) p \<or> contains cs p)"

text \<open>
  \<open>s.replace(old, new)\<close> for a non-empty \<open>old\<close>: occurrences are replaced from the left
  and do not overlap. The counter is the number of characters of the occurrence just
  replaced that are still to be skipped.
\<close>

fun replace_from :: "pystr \<Rightarrow> pystr \<Rightarrow> nat \<Rightarrow> pystr \<Rightarrow> pystr" where
  "replace_from old new k [] = []"
| "replace_from old new k (c # cs) =
     (if 0 < k then replace_from old new (k - 1) cs
      else if old \<noteq> [] \<and> startswith (c # cs) old
        then new @ replace_from old new (length old - 1) cs
      else c # replace_from old new 0 cs)"

definition replace :: "pystr \<Rightarrow> pystr \<Rightarrow> pystr \<Rightarrow> pystr" where
  "replace s old new = replace_from old new 0 s"

text \<open>\<open>s.count(c)\<close> and \<open>s.rfind(c)\<close> for a one-character \<open>c\<close>; \<open>rfind\<close> is \<open>-1\<close> when
  the character does not occur.\<close>

definition count :: "pystr \<Rightarrow> nat \<Rightarrow> nat" where
  "count s c = length (filter (\<lambda>x. x = c) s)"

fun rfind_from :: "nat \<Rightarrow> int \<Rightarrow> pystr \<Rightarrow> int" where
  "rfind_from c i [] = -1"
| "rfind_from c i (x # xs) =
     (let r = rfind_from c (i + 1) xs in if r \<noteq> -1 then r else if x = c then i else -1)"

definition rfind :: "pystr \<Rightarrow> nat \<Rightarrow> int" where
  "rfind s c = rfind_from c 0 s"

text \<open>
  \<open>str.lower\<close> is a function of the Python library over all of Unicode; the
  functions that call it take it from their environment (the fields \<open>str_lower\<close>
  below). On a string of ASCII characters it is the following function, which the
  concrete examples use.
\<close>

definition ascii_lower :: "pystr \<Rightarrow> pystr" where
  "ascii_lower s = map (\<lambda>c. if 65 \<le> c \<and> c \<le> 90 then c + 32 else c) s"

text \<open>\<open>sep.join(xs)\<close>.\<close>

fun join :: "pystr \<Rightarrow> pystr list \<Rightarrow> pystr" where
  "join sep [] = []"
| "join sep [x] = x"
| "join sep (x # y # ys) = x @ sep @ join sep (y # ys)"

text \<open>The exceptions the modelled code raises, each with its message.\<close>

datatype py_error =
    FileNotFoundError pystr
  | ValueError pystr
  | KeyError pystr
  | AttributeError pystr
  | TypeError pystr
  | RuntimeError pystr

text \<open>\<open>str(e)\<close>: the message; for a \<open>KeyError\<close> the quoted key.\<close>

fun error_text :: "py_error \<Rightarrow> pystr" where
  "error_text (FileNotFoundError m) = m"
| "error_text (ValueError m) = m"
| "error_text (KeyError k) = S [CHR 0x27] @ k @ S [CHR 0x27]"
| "error_text (AttributeError m) = m"
| "error_text (TypeError m) = m"
| "error_text (RuntimeError m) = m"

text \<open>\<open>str(n)\<close> for a natural number.\<close>

fun str_nat :: "nat \<Rightarrow> pystr" where
  "str_nat n = (if n < 10 then [48 + n] else str_nat (n div 10) @ [48 + n mod 10])"

declare str_nat.simps [simp del]

section \<open>Format detection (\<open>services/file_detector.py\<close>)\<close>

text \<open>
  \<open>FileDetector.supported_extensions\<close>, in the order in which the dictionary is
  written (the order of its keys).
\<close>

definition supported_extensions :: "(pystr \<times> pystr) list" where
  "supported_extensions =
     [(S ''.csv'', S ''csv''), (S ''.txt'', S ''csv''), (S ''.xls'', S ''excel''),
      (S ''.xlsx'', S ''excel''), (S ''.xlsm'', S ''excel''), (S ''.ofx'', S ''ofx''),
      (S ''.pdf'', S ''pdf''), (S ''.jpg'', S ''image''), (S ''.jpeg'', S ''image''),
      (S ''.png'', S ''image''), (S ''.webp'', S ''image''), (S ''.gif'', S ''image''),
      (S ''.html'', S ''html''), (S ''.htm'', S ''html'')]"

text \<open>
  What the operating system and the standard library report about paths:
  \<open>fs_size p\<close> is the size in bytes of the file at \<open>p\<close>, or \<open>None\<close> when nothing
  exists there (\<open>Path.exists\<close>); \<open>path_suffix\<close> is \<open>Path(p).suffix\<close>; \<open>guess_type\<close> is
  the first component of \<open>mimetypes.guess_type(p)\<close>; \<open>str_lower\<close> is \<open>str.lower\<close>.
\<close>

record file_env =
  fs_size :: "pystr \<Rightarrow> nat option"
  path_suffix :: "pystr \<Rightarrow> pystr"
  guess_type :: "pystr \<Rightarrow> pystr option"
  str_lower :: "pystr \<Rightarrow> pystr"

definition unsupported_message :: "pystr \<Rightarrow> pystr" where
  "unsupported_message extension =
     S ''Formato no soportado: '' @ extension @ S ''. '' @
     S ''Soportados: '' @ join (S '', '') (map fst supported_extensions)"

text \<open>\<open>FileDetector.detect\<close>. An empty string is falsy, as \<open>None\<close> is.\<close>

definition detect :: "file_env \<Rightarrow> pystr \<Rightarrow> py_error + (pystr \<times> pystr)" where
  "detect env file_path =
     (if fs_size env file_path = None
        then Inl (FileNotFoundError (S ''Archivo no encontrado: '' @ file_path))
      else
        let extension = str_lower env (path_suffix env file_path);
            formato = map_of supported_extensions extension
        in if formato = None \<or> formato = Some []
             then Inl (ValueError (unsupported_message extension))
           else
             let mime_type = (case guess_type env file_path of
                                None \<Rightarrow> S ''application/octet-stream''
                              | Some m \<Rightarrow> if m = [] then S ''application/octet-stream'' else m)
             in Inr (the formato, mime_type))"

text \<open>
  Two concrete environments: one whose only file, \<open>vacio.csv\<close>, exists and is zero
  bytes long, and one whose only file is \<open>notas.doc\<close>.
\<close>

definition empty_csv_env :: file_env where
  "empty_csv_env =
     \<lparr>fs_size = (\<lambda>p. if p = S ''vacio.csv'' then Some 0 else None),
      path_suffix = (\<lambda>p. if p = S ''vacio.csv'' then S ''.csv'' else S ''.CSV''),
      guess_type = (\<lambda>p. if p = S ''vacio.csv'' then Some (S ''text/csv'') else None),
      str_lower = ascii_lower\<rparr>"

definition doc_env :: file_env where
  "doc_env =
     \<lparr>fs_size = (\<lambda>p. if p = S ''notas.doc'' then Some 120 else None),
      path_suffix = (\<lambda>p. S ''.doc''),
      guess_type = (\<lambda>p. Some (S ''application/msword'')),
      str_lower = ascii_lower\<rparr>"

section \<open>The classification cascade (\<open>agents/clasificacion.py\<close>, \<open>agents/base.py\<close>)\<close>

subsection \<open>Data\<close>

text \<open>
  The dictionaries of the agent's state as records. A float is modelled by the
  rational number it stands for.
\<close>

record transaccion =
  tx_id :: pystr
  concepto :: pystr
  importe :: rat

text \<open>
  A rule's \<open>condicion\<close> is a dictionary read from a JSON column; the schema of the
  API asks only for a dictionary. Each of the three keys the agent reads may be
  absent, and its value may be any JSON value.
\<close>

datatype json =
    JNull
  | JBool bool
  | JInt int
  | JFloat rat
  | JStr pystr
  | JList "json list"
  | JObj "(pystr \<times> json) list"

record condicion =
  campo :: "json option"
  operador :: "json option"
  valor :: "json option"

text \<open>A row of the table \<open>regla_clasificacion\<close> (the columns the agent reads).\<close>

record regla_row =
  rr_id :: pystr
  rr_tenant_id :: pystr
  rr_activa :: bool
  rr_prioridad :: int
  rr_condicion :: condicion
  rr_categoria_pgc :: pystr

record regla =
  regla_id :: pystr
  regla_condicion :: condicion
  regla_categoria_pgc :: pystr

record clasificacion =
  transaccion_id :: pystr
  categoria_pgc :: pystr
  confianza :: rat
  metodo :: pystr
  explicacion :: pystr

text \<open>The answer of the external classifier, a JSON object whose keys may be absent.\<close>

record llm_result =
  llm_categoria_pgc :: "pystr option"
  llm_confianza :: "rat option"
  llm_explicacion :: "pystr option"

text \<open>The feedback dictionary; it is falsy exactly when it has no key.\<close>

record feedback =
  correcciones :: "(pystr \<times> pystr) list option"
  validado_por :: "pystr option"

text \<open>
  \<open>ClasificacionState\<close>. The list-valued keys are only read with \<open>get(key, [])\<close>, so an
  absent list is the empty list; \<open>requires_human\<close> is only read for its truth value,
  so an absent flag is \<open>False\<close>.
\<close>

record state =
  tenant_id :: "pystr option"
  session_id :: "pystr option"
  status :: "pystr option"
  transaccion_ids :: "pystr list"
  transacciones :: "transaccion list"
  reglas :: "regla list"
  clasificaciones :: "clasificacion list"
  pendientes_revision :: "clasificacion list"
  review_threshold :: "rat option"
  requires_human :: bool
  human_feedback :: "feedback option"
  results :: "(nat \<times> clasificacion list) option"
  error :: "pystr option"

text \<open>
  The collaborators of a run. \<open>uuid_text x\<close> is \<open>str(UUID(x))\<close>, \<open>None\<close> when \<open>UUID(x)\<close>
  raises; \<open>db_transacciones ids\<close> is the result of the query for the transactions
  whose id is in \<open>ids\<close>, already as the dictionaries \<open>load_data\<close> builds from the rows;
  \<open>db_reglas\<close> is the rule table; \<open>db_historico p\<close> gives the categories of the (at
  most five) validated classifications whose transaction's text contains \<open>p\<close>;
  \<open>classify_transaction k\<close> is the external classifier at its \<open>k\<close>-th call of the run;
  \<open>str_float\<close> is \<open>str\<close> on floats; \<open>lower\<close> is \<open>str.lower\<close>; \<open>db_commit\<close> is the
  exception \<open>commit\<close> raises, if any. A query that raises is an \<open>Inl\<close>.
\<close>

record clasif_env =
  uuid_text :: "pystr \<Rightarrow> pystr option"
  new_uuid :: pystr
  db_transacciones :: "pystr list \<Rightarrow> py_error + transaccion list"
  db_reglas :: "py_error + regla_row list"
  db_historico :: "pystr \<Rightarrow> py_error + pystr list"
  classify_transaction :: "nat \<Rightarrow> pystr \<Rightarrow> rat \<Rightarrow> py_error + llm_result"
  str_float :: "rat \<Rightarrow> pystr"
  lower :: "pystr \<Rightarrow> pystr"
  db_commit :: "py_error option"

text \<open>
  The database session as far as the agent writes to it: the objects added and not
  yet committed, the committed classifications, and the number of commits.
\<close>

record db_session =
  added :: "clasificacion list"
  stored :: "clasificacion list"
  commits :: nat

subsection \<open>\<open>load_data\<close>\<close>

text \<open>\<open>[UUID(tid) for tid in ...]\<close>: the first malformed id raises \<open>ValueError\<close>.\<close>

fun uuids :: "clasif_env \<Rightarrow> pystr list \<Rightarrow> py_error + pystr list" where
  "uuids env [] = Inr []"
| "uuids env (t # ts) =
     (case uuid_text env t of
        None \<Rightarrow> Inl (ValueError (S ''badly formed hexadecimal UUID string''))
      | Some u \<Rightarrow> (case uuids env ts of Inl e \<Rightarrow> Inl e | Inr us \<Rightarrow> Inr (u # us)))"

text \<open>
  The rule query: the active rules of the tenant, by descending priority. Rules of
  equal priority are kept in table order here (SQL leaves their order open).
\<close>

definition select_reglas :: "pystr \<Rightarrow> regla_row list \<Rightarrow> regla_row list" where
  "select_reglas tenant rows =
     sort_key (\<lambda>r. - rr_prioridad r) (filter (\<lambda>r. rr_tenant_id r = tenant \<and> rr_activa r) rows)"

definition regla_dict :: "regla_row \<Rightarrow> regla" where
  "regla_dict r =
     \<lparr>regla_id = rr_id r, regla_condicion = rr_condicion r, regla_categoria_pgc = rr_categoria_pgc r\<rparr>"

definition load_data :: "clasif_env \<Rightarrow> state \<Rightarrow> py_error + state" where
  "load_data env st =
     (case uuids env (transaccion_ids st) of
        Inl e \<Rightarrow> Inl e
      | Inr tx_ids \<Rightarrow>
          if tx_ids = []
            then Inr (st\<lparr>transacciones := [], reglas := [], clasificaciones := [],
                         status := Some (S ''processing'')\<rparr>)
          else
            (case db_transacciones env tx_ids of
               Inl e \<Rightarrow> Inl e
             | Inr txs \<Rightarrow>
                 (case tenant_id st of
                    None \<Rightarrow> Inl (KeyError (S ''tenant_id''))
                  | Some t \<Rightarrow>
                      (case uuid_text env t of
                         None \<Rightarrow> Inl (ValueError (S ''badly formed hexadecimal UUID string''))
                       | Some tenant \<Rightarrow>
                           (case db_reglas env of
                              Inl e \<Rightarrow> Inl e
                            | Inr rows \<Rightarrow>
                                Inr (st\<lparr>transacciones := txs,
                                        reglas := map regla_dict (select_reglas tenant rows),
                                        clasificaciones := [],
                                        status := Some (S ''processing'')\<rparr>))))))"

subsection \<open>\<open>apply_rules\<close>\<close>

text \<open>\<open>str(tx.get(campo, ""))\<close> on a transaction dictionary with the keys
  \<open>id\<close>, \<open>concepto\<close> and \<open>importe\<close>.\<close>

definition tx_get :: "clasif_env \<Rightarrow> transaccion \<Rightarrow> pystr \<Rightarrow> pystr" where
  "tx_get env tx c =
     (if c = S ''id'' then tx_id tx
      else if c = S ''concepto'' then concepto tx
      else if c = S ''importe'' then str_float env (importe tx)
      else [])"

text \<open>The name Python gives the type of a JSON value, for the messages below.\<close>

fun type_name :: "json \<Rightarrow> pystr" where
  "type_name JNull = S ''NoneType''"
| "type_name (JBool b) = S ''bool''"
| "type_name (JInt i) = S ''int''"
| "type_name (JFloat x) = S ''float''"
| "type_name (JStr x) = S ''str''"
| "type_name (JList xs) = S ''list''"
| "type_name (JObj kvs) = S ''dict''"

text \<open>
  \<open>condicion.get("valor", "").lower()\<close>: a value that is not a string has no method
  \<open>lower\<close>, and the call raises \<open>AttributeError\<close>.
\<close>

definition valor_lower :: "clasif_env \<Rightarrow> condicion \<Rightarrow> py_error + pystr" where
  "valor_lower env cond =
     (case valor cond of
        None \<Rightarrow> Inr (lower env [])
      | Some (JStr v) \<Rightarrow> Inr (lower env v)
      | Some j \<Rightarrow>
          Inl (AttributeError (S [CHR 0x27] @ type_name j @ S [CHR 0x27] @
                 S '' object has no attribute '' @ S [CHR 0x27] @ S ''lower'' @ S [CHR 0x27])))"

text \<open>
  \<open>str(tx.get(campo, "")).lower()\<close>: a list or a dictionary cannot be looked up in a
  dictionary (\<open>TypeError\<close>); any other value that is not one of the three keys gives
  the default.
\<close>

definition campo_valor :: "clasif_env \<Rightarrow> transaccion \<Rightarrow> condicion \<Rightarrow> py_error + pystr" where
  "campo_valor env tx cond =
     (case campo cond of
        None \<Rightarrow> Inr (lower env (tx_get env tx (S ''concepto'')))
      | Some (JStr c) \<Rightarrow> Inr (lower env (tx_get env tx c))
      | Some (JList xs) \<Rightarrow>
          Inl (TypeError (S ''unhashable type: '' @ S [CHR 0x27] @ S ''list'' @ S [CHR 0x27]))
      | Some (JObj kvs) \<Rightarrow>
          Inl (TypeError (S ''unhashable type: '' @ S [CHR 0x27] @ S ''dict'' @ S [CHR 0x27]))
      | Some j \<Rightarrow> Inr (lower env []))"

text \<open>\<open>_match_rule\<close>. An operator that is not one of the three strings matches nothing.\<close>

definition match_rule :: "clasif_env \<Rightarrow> transaccion \<Rightarrow> condicion \<Rightarrow> py_error + bool" where
  "match_rule env tx cond =
     (case valor_lower env cond of
        Inl e \<Rightarrow> Inl e
      | Inr valor' \<Rightarrow>
          (case campo_valor env tx cond of
             Inl e \<Rightarrow> Inl e
           | Inr tx_valor \<Rightarrow>
               Inr (case operador cond of
                      None \<Rightarrow> contains tx_valor valor'
                    | Some (JStr operador') \<Rightarrow>
                        if operador' = S ''contains'' then contains tx_valor valor'
                        else if operador' = S ''equals'' then valor' = tx_valor
                        else if operador' = S ''startswith'' then startswith tx_valor valor'
                        else False
                    | Some j \<Rightarrow> False)))"

text \<open>The dictionary that \<open>apply_rules\<close> appends for a record and the rule that matched it.\<close>

definition rule_clasificacion :: "transaccion \<Rightarrow> regla \<Rightarrow> clasificacion" where
  "rule_clasificacion tx r =
     \<lparr>transaccion_id = tx_id tx, categoria_pgc = regla_categoria_pgc r,
      confianza = 99 / 100, metodo = S ''regla'',
      explicacion = S ''Regla: '' @ regla_id r\<rparr>"

text \<open>
  The inner loop: the rules are tried in the order of the list; the first that
  matches ends the loop (\<open>break\<close>); a condition that raises ends the phase.
\<close>

fun first_match :: "clasif_env \<Rightarrow> transaccion \<Rightarrow> regla list \<Rightarrow> py_error + regla option" where
  "first_match env tx [] = Inr None"
| "first_match env tx (r # rs) =
     (case match_rule env tx (regla_condicion r) of
        Inl e \<Rightarrow> Inl e
      | Inr b \<Rightarrow> if b then Inr (Some r) else first_match env tx rs)"

text \<open>The outer loop, with the list of decisions made so far.\<close>

fun rules_loop ::
  "clasif_env \<Rightarrow> regla list \<Rightarrow> transaccion list \<Rightarrow> clasificacion list \<Rightarrow>
   py_error + clasificacion list" where
  "rules_loop env rs [] cs = Inr cs"
| "rules_loop env rs (tx # txs) cs =
     (case first_match env tx rs of
        Inl e \<Rightarrow> Inl e
      | Inr None \<Rightarrow> rules_loop env rs txs cs
      | Inr (Some r) \<Rightarrow> rules_loop env rs txs (cs @ [rule_clasificacion tx r]))"

definition apply_rules :: "clasif_env \<Rightarrow> state \<Rightarrow> py_error + state" where
  "apply_rules env st =
     (case rules_loop env (reglas st) (transacciones st) [] of
        Inl e \<Rightarrow> Inl e
      | Inr cs \<Rightarrow>
          let clasificadas_ids = map transaccion_id cs;
              pendientes = filter (\<lambda>t. tx_id t \<notin> set clasificadas_ids) (transacciones st)
          in Inr (st\<lparr>clasificaciones := cs, transacciones := pendientes\<rparr>))"

subsection \<open>\<open>check_history\<close>\<close>

text \<open>
  \<open>max(set(categorias), key=categorias.count)\<close>: a category with the highest count.
  Among several with that count, the one that comes first in the list is taken here
  (Python takes the first in the iteration order of the set).
\<close>

definition categoria_comun :: "pystr list \<Rightarrow> pystr" where
  "categoria_comun cats =
     (let m = Max (set (map (count_list cats) cats))
      in the (find (\<lambda>c. count_list cats c = m) cats))"

text \<open>\<open>round(x, 2)\<close>, to the nearest hundredth, halves to the even one.\<close>

definition round2 :: "rat \<Rightarrow> rat" where
  "round2 x =
     (let y = x * 100; f = floor y; d = y - of_int f
      in of_int (if d < 1 / 2 then f else if 1 / 2 < d then f + 1
                 else if even f then f else f + 1) / 100)"

definition history_decision :: "transaccion \<Rightarrow> pystr list \<Rightarrow> clasificacion" where
  "history_decision tx categorias =
     (let comun = categoria_comun categorias;
          frecuencia = of_nat (count_list categorias comun) / of_nat (length categorias)
      in \<lparr>transaccion_id = tx_id tx, categoria_pgc = comun,
           confianza = round2 (85 / 100 * frecuencia), metodo = S ''historico'',
           explicacion = S ''Basado en '' @ str_nat (length categorias) @
             S '' clasificaciones similares''\<rparr>)"

text \<open>The loop of \<open>check_history\<close>, with its three accumulators.\<close>

fun history_loop ::
  "clasif_env \<Rightarrow> transaccion list \<Rightarrow> clasificacion list \<Rightarrow> pystr list \<Rightarrow> transaccion list \<Rightarrow>
   py_error + (clasificacion list \<times> transaccion list)" where
  "history_loop env [] cs ids pendientes = Inr (cs, pendientes)"
| "history_loop env (tx # txs) cs ids pendientes =
     (if tx_id tx \<in> set ids then history_loop env txs cs ids pendientes
      else
        (case db_historico env (take 20 (concepto tx)) of
           Inl e \<Rightarrow> Inl e
         | Inr historico \<Rightarrow>
             if historico \<noteq> []
               then history_loop env txs (cs @ [history_decision tx historico])
                      (ids @ [tx_id tx]) pendientes
             else history_loop env txs cs ids (pendientes @ [tx])))"

definition check_history :: "clasif_env \<Rightarrow> state \<Rightarrow> py_error + state" where
  "check_history env st =
     (case history_loop env (transacciones st) (clasificaciones st)
             (map transaccion_id (clasificaciones st)) [] of
        Inl e \<Rightarrow> Inl e
      | Inr (cs, pendientes) \<Rightarrow> Inr (st\<lparr>clasificaciones := cs, transacciones := pendientes\<rparr>))"

subsection \<open>\<open>llm_classify\<close>\<close>

definition llm_decision :: "transaccion \<Rightarrow> llm_result \<Rightarrow> py_error + clasificacion" where
  "llm_decision tx r =
     (case llm_categoria_pgc r of
        None \<Rightarrow> Inl (KeyError (S ''categoria_pgc''))
      | Some cat \<Rightarrow>
          (case llm_confianza r of
             None \<Rightarrow> Inl (KeyError (S ''confianza''))
           | Some conf \<Rightarrow>
               Inr \<lparr>transaccion_id = tx_id tx, categoria_pgc = cat, confianza = conf,
                    metodo = S ''llm'',
                    explicacion = (case llm_explicacion r of None \<Rightarrow> [] | Some x \<Rightarrow> x)\<rparr>))"

fun llm_loop ::
  "clasif_env \<Rightarrow> nat \<Rightarrow> transaccion list \<Rightarrow> clasificacion list \<Rightarrow> py_error + clasificacion list" where
  "llm_loop env k [] cs = Inr cs"
| "llm_loop env k (tx # txs) cs =
     (case classify_transaction env k (concepto tx) (importe tx) of
        Inl e \<Rightarrow> Inl e
      | Inr r \<Rightarrow>
          (case llm_decision tx r of
             Inl e \<Rightarrow> Inl e
           | Inr d \<Rightarrow> llm_loop env (k + 1) txs (cs @ [d])))"

definition llm_classify :: "clasif_env \<Rightarrow> state \<Rightarrow> py_error + state" where
  "llm_classify env st =
     (case llm_loop env 0 (transacciones st) (clasificaciones st) of
        Inl e \<Rightarrow> Inl e
      | Inr cs \<Rightarrow> Inr (st\<lparr>clasificaciones := cs, transacciones := []\<rparr>))"

subsection \<open>\<open>prepare_review\<close>, the conditional edge and \<open>save_results\<close>\<close>

definition prepare_review :: "state \<Rightarrow> state" where
  "prepare_review st =
     (let threshold = (case review_threshold st of None \<Rightarrow> 75 / 100 | Some t \<Rightarrow> t);
          pendientes = filter (\<lambda>c. confianza c < threshold) (clasificaciones st)
      in st\<lparr>pendientes_revision := pendientes,
            requires_human := (0 < length pendientes),
            status := Some (if pendientes \<noteq> [] then S ''review'' else S ''completing'')\<rparr>)"

definition truthy_feedback :: "feedback option \<Rightarrow> bool" where
  "truthy_feedback f =
     (case f of None \<Rightarrow> False | Some d \<Rightarrow> correcciones d \<noteq> None \<or> validado_por d \<noteq> None)"

text \<open>The edge out of \<open>prepare_review\<close>: \<open>True\<close> is \<open>pause\<close>, \<open>False\<close> is \<open>continue\<close>.\<close>

definition pause :: "state \<Rightarrow> bool" where
  "pause st \<longleftrightarrow> requires_human st \<and> \<not> truthy_feedback (human_feedback st)"

definition corregir :: "(pystr \<times> pystr) list \<Rightarrow> clasificacion \<Rightarrow> clasificacion" where
  "corregir corr c =
     (case map_of corr (transaccion_id c) of
        None \<Rightarrow> c
      | Some cat \<Rightarrow> c\<lparr>categoria_pgc := cat, metodo := S ''manual'', confianza := 1\<rparr>)"

text \<open>\<open>(state.get("human_feedback") or {}).get("correcciones", {})\<close>.\<close>

definition feedback_correcciones :: "feedback option \<Rightarrow> (pystr \<times> pystr) list" where
  "feedback_correcciones f =
     (case f of
        None \<Rightarrow> []
      | Some d \<Rightarrow> (case correcciones d of None \<Rightarrow> [] | Some c \<Rightarrow> c))"

text \<open>
  \<open>save_results\<close>: every decision, corrected where the feedback says so, is added to
  the session; then one commit.
\<close>

definition save_results ::
  "clasif_env \<Rightarrow> state \<Rightarrow> db_session \<Rightarrow> (py_error + state) \<times> db_session" where
  "save_results env st db =
     (let corr = feedback_correcciones (human_feedback st);
          cs = map (corregir corr) (clasificaciones st);
          db1 = db\<lparr>added := added db @ cs\<rparr>
      in case db_commit env of
           Some e \<Rightarrow> (Inl e, db1)
         | None \<Rightarrow>
             (Inr (st\<lparr>clasificaciones := cs, status := Some (S ''completed''),
                      results := Some (length cs, cs)\<rparr>),
              db1\<lparr>stored := stored db1 @ added db1, added := [], commits := commits db1 + 1\<rparr>))"

subsection \<open>The graph and \<open>BaseAgent.run\<close>\<close>

text \<open>The stages before the conditional edge, in the order of the graph's edges.\<close>

definition cascade :: "clasif_env \<Rightarrow> state \<Rightarrow> py_error + state" where
  "cascade env st =
     (case load_data env st of
        Inl e \<Rightarrow> Inl e
      | Inr s1 \<Rightarrow>
          (case apply_rules env s1 of
             Inl e \<Rightarrow> Inl e
           | Inr s2 \<Rightarrow>
               (case check_history env s2 of
                  Inl e \<Rightarrow> Inl e
                | Inr s3 \<Rightarrow>
                    (case llm_classify env s3 of
                       Inl e \<Rightarrow> Inl e
                     | Inr s4 \<Rightarrow> Inr (prepare_review s4)))))"

definition ainvoke ::
  "clasif_env \<Rightarrow> state \<Rightarrow> db_session \<Rightarrow> (py_error + state) \<times> db_session" where
  "ainvoke env st db =
     (case cascade env st of
        Inl e \<Rightarrow> (Inl e, db)
      | Inr s5 \<Rightarrow> if pause s5 then (Inr s5, db) else save_results env s5 db)"

text \<open>The first lines of \<open>run\<close>: a state without \<open>session_id\<close> gets a fresh one.\<close>

definition ensure_session_id :: "clasif_env \<Rightarrow> state \<Rightarrow> state" where
  "ensure_session_id env initial_state =
     (if session_id initial_state = None
        then initial_state\<lparr>session_id := Some (new_uuid env)\<rparr>
      else initial_state)"

definition run :: "clasif_env \<Rightarrow> state \<Rightarrow> db_session \<Rightarrow> state \<times> db_session" where
  "run env initial_state db =
     (let init = ensure_session_id env initial_state
      in case ainvoke env init db of
           (Inr result, db') \<Rightarrow> (result, db')
         | (Inl e, db') \<Rightarrow>
             (init\<lparr>status := Some (S ''error''), error := Some (error_text e)\<rparr>, db'))"

subsection \<open>Notions used in the statements\<close>



subsection \<open>A concrete run\<close>

text \<open>
  Three transactions, one active rule (\<open>concepto contains "iberdrola" \<rightarrow> 628\<close>), one
  inactive rule of higher priority, a history that knows \<open>PAGO AMAZON\<close>, and a
  classifier that answers \<open>705\<close> with confidence \<open>0.6\<close>. The rules of the example
  read only \<open>concepto\<close>, so \<open>str_float\<close> is never called; all its strings are ASCII,
  on which \<open>str.lower\<close> is \<open>ascii_lower\<close>.
\<close>

definition demo_txs :: "transaccion list" where
  "demo_txs =
     [\<lparr>tx_id = S ''t1'', concepto = S ''RECIBO IBERDROLA DICIEMBRE'', importe = - 241 / 2\<rparr>,
      \<lparr>tx_id = S ''t2'', concepto = S ''PAGO AMAZON'', importe = - 4599 / 100\<rparr>,
      \<lparr>tx_id = S ''t3'', concepto = S ''TRANSFERENCIA NOMINA'', importe = 2500\<rparr>]"

definition demo_rows :: "regla_row list" where
  "demo_rows =
     [\<lparr>rr_id = S ''r0'', rr_tenant_id = S ''tenant'', rr_activa = False, rr_prioridad = 9,
       rr_condicion = \<lparr>campo = None, operador = None, valor = Some (JStr (S ''recibo''))\<rparr>,
       rr_categoria_pgc = S ''629''\<rparr>,
      \<lparr>rr_id = S ''r1'', rr_tenant_id = S ''tenant'', rr_activa = True, rr_prioridad = 5,
       rr_condicion = \<lparr>campo = Some (JStr (S ''concepto'')),
                       operador = Some (JStr (S ''contains'')),
                       valor = Some (JStr (S ''iberdrola''))\<rparr>,
       rr_categoria_pgc = S ''628''\<rparr>]"

definition demo_env :: clasif_env where
  "demo_env =
     \<lparr>uuid_text = (\<lambda>x. Some x),
      new_uuid = S ''s1'',
      db_transacciones = (\<lambda>ids. Inr (filter (\<lambda>t. tx_id t \<in> set ids) demo_txs)),
      db_reglas = Inr demo_rows,
      db_historico = (\<lambda>p. if p = S ''PAGO AMAZON''
                           then Inr [S ''629'', S ''600'', S ''629''] else Inr []),
      classify_transaction = (\<lambda>k c i. Inr \<lparr>llm_categoria_pgc = Some (S ''705''),
                                            llm_confianza = Some (6 / 10),
                                            llm_explicacion = None\<rparr>),
      str_float = (\<lambda>x. []),
      lower = ascii_lower,
      db_commit = None\<rparr>"

text \<open>The same collaborators, with a classifier that is out of service.\<close>

definition demo_env_down :: clasif_env where
  "demo_env_down =
     demo_env\<lparr>classify_transaction := (\<lambda>k c i. Inl (RuntimeError (S ''503 Service Unavailable'')))\<rparr>"

definition demo_initial :: state where
  "demo_initial =
     \<lparr>tenant_id = Some (S ''tenant''), session_id = None, status = None,
      transaccion_ids = [S ''t1'', S ''t2'', S ''t3''], transacciones = [], reglas = [],
      clasificaciones = [], pendientes_revision = [], review_threshold = Some (3 / 4),
      requires_human = False, human_feedback = None, results = None, error = None\<rparr>"

definition demo_db :: db_session where
  "demo_db = \<lparr>added = [], stored = [], commits = 0\<rparr>"


text \<open>The states of that run after \<open>load_data\<close>, \<open>apply_rules\<close>, \<open>check_history\<close> and
  \<open>llm_classify\<close>.\<close>

definition demo_d1 :: clasificacion where
  "demo_d1 = \<lparr>transaccion_id = S ''t1'', categoria_pgc = S ''628'', confianza = 99 / 100,
               metodo = S ''regla'', explicacion = S ''Regla: r1''\<rparr>"

definition demo_d2 :: clasificacion where
  "demo_d2 = \<lparr>transaccion_id = S ''t2'', categoria_pgc = S ''629'', confianza = 57 / 100,
               metodo = S ''historico'',
               explicacion = S ''Basado en 3 clasificaciones similares''\<rparr>"


definition demo_loaded :: state where
  "demo_loaded =
     demo_initial\<lparr>transacciones := demo_txs,
                   reglas := [\<lparr>regla_id = S ''r1'',
                               regla_condicion = \<lparr>campo = Some (JStr (S ''concepto'')),
                                 operador = Some (JStr (S ''contains'')),
                                 valor = Some (JStr (S ''iberdrola''))\<rparr>,
                               regla_categoria_pgc = S ''628''\<rparr>],
                   status := Some (S ''processing'')\<rparr>"

definition demo_s2 :: state where
  "demo_s2 =
     demo_loaded\<lparr>clasificaciones := [demo_d1], transacciones := [demo_txs ! 1, demo_txs ! 2]\<rparr>"

definition demo_s3 :: state where
  "demo_s3 = demo_loaded\<lparr>clasificaciones := [demo_d1, demo_d2], transacciones := [demo_txs ! 2]\<rparr>"







section \<open>Validation of extracted transactions (\<open>services/validators.py\<close>)\<close>

subsection \<open>\<open>_parse_amount\<close>\<close>

text \<open>
  The first block of \<open>_parse_amount\<close>: \<open>strip()\<close>, then the five \<open>replace\<close> calls, in
  the order of the source. The euro sign is the code point 8364.
\<close>

definition amount_clean :: "pystr \<Rightarrow> pystr" where
  "amount_clean amount_str =
     replace (replace (replace (replace (replace (strip amount_str)
       (S '' '') []) [8364] []) (S ''$'') []) (S ''USD'') []) (S ''EUR'') []"

text \<open>
  The second block: the separators are told apart by their counts and by the index of
  their last occurrence. The comma is the code point 44 and the dot 46.
\<close>

definition amount_separators :: "pystr \<Rightarrow> pystr" where
  "amount_separators amount_str =
     (let num_commas = count amount_str 44;
          num_dots = count amount_str 46
      in if 0 < num_commas \<and> 0 < num_dots
           then (let last_comma = rfind amount_str 44;
                     last_dot = rfind amount_str 46
                 in if last_dot < last_comma
                      then replace (replace amount_str (S ''.'') []) (S '','') (S ''.'')
                    else replace amount_str (S '','') [])
         else if 0 < num_commas
           then (if num_commas = 1 \<and> int (length amount_str) - 4 < rfind amount_str 44
                   then replace amount_str (S '','') (S ''.'')
                 else replace amount_str (S '','') [])
         else amount_str)"

text \<open>
  The third block: \<open>float\<close> is Python's, taken as a parameter; \<open>None\<close> stands for its
  \<open>ValueError\<close>, which is raised again with the parser's own message.
\<close>

definition amount_float :: "(pystr \<Rightarrow> 'f option) \<Rightarrow> pystr \<Rightarrow> py_error + 'f" where
  "amount_float float amount_str =
     (case float amount_str of
        Some x \<Rightarrow> Inr x
      | None \<Rightarrow> Inl (ValueError (S ''No se pudo parsear importe: '' @ amount_str)))"

definition parse_amount :: "(pystr \<Rightarrow> 'f option) \<Rightarrow> pystr \<Rightarrow> py_error + 'f" where
  "parse_amount float amount_str =
     amount_float float (amount_separators (amount_clean amount_str))"

text \<open>
  A reading of plain decimal numerals (an optional sign, digits, at most one dot with
  digits on at least one side) as exact rationals, for the concrete examples: on such a
  numeral \<open>float\<close> gives the double nearest to this value, and on the other strings used
  in the examples, which this function refuses, \<open>float\<close> raises.
\<close>

fun digits_value :: "pystr \<Rightarrow> nat \<Rightarrow> nat option" where
  "digits_value [] acc = Some acc"
| "digits_value (c # cs) acc =
     (if 48 \<le> c \<and> c \<le> 57 then digits_value cs (10 * acc + (c - 48)) else None)"

definition plain_decimal :: "pystr \<Rightarrow> rat option" where
  "plain_decimal s =
     (let neg = (s \<noteq> [] \<and> hd s = 45);
          body = (if s \<noteq> [] \<and> (hd s = 45 \<or> hd s = 43) then tl s else s);
          ip = takeWhile (\<lambda>c. c \<noteq> 46) body;
          fp = drop (length ip + 1) body
      in if ip = [] \<and> fp = [] then None
         else (case (digits_value ip 0, digits_value fp 0) of
                 (Some i, Some f) \<Rightarrow>
                   Some ((if neg then - 1 else 1) *
                         (of_nat i + of_nat f / of_nat (10 ^ length fp)))
               | _ \<Rightarrow> None))"

section \<open>Properties of format detection\<close>

lemma formato_nonempty:
  "map_of supported_extensions e = Some f \<Longrightarrow> f \<noteq> []"
  by (auto simp add: supported_extensions_def S_def split: if_splits)

text \<open>
  Claim C7, as stated, asks for a failure on a zero-byte file. The detector never looks
  at the size: the existing, empty file \<open>vacio.csv\<close> is detected as \<open>csv\<close>.
\<close>

theorem detect_zero_byte_counterexample:
  "fs_size empty_csv_env (S ''vacio.csv'') = Some 0 \<and>
   detect empty_csv_env (S ''vacio.csv'') = Inr (S ''csv'', S ''text/csv'')"
  by (simp add: empty_csv_env_def detect_def supported_extensions_def S_def ascii_lower_def)

text \<open>
  Claim C7, amended. A missing file with a supported extension fails with
  \<open>FileNotFoundError\<close>; an existing file whose lower-cased extension is not in the
  table fails with a \<open>ValueError\<close> whose message names that extension and lists the
  supported extensions; an existing file with a supported extension, of any size
  (zero included), yields the table's format and the guessed media type, or
  \<open>application/octet-stream\<close> when none is guessed. The detector only reads its
  environment and returns a value. (What happens to a missing file with an
  unsupported extension is left open here: the code reports the file as missing,
  while the repository's test \<open>test_unsupported_format\<close> expects the \<open>ValueError\<close>.)
\<close>

theorem detect_cases:
  "(fs_size env p = None \<and> map_of supported_extensions (str_lower env (path_suffix env p)) \<noteq> None \<longrightarrow>
      detect env p = Inl (FileNotFoundError (S ''Archivo no encontrado: '' @ p))) \<and>
   (fs_size env p \<noteq> None \<and> map_of supported_extensions (str_lower env (path_suffix env p)) = None \<longrightarrow>
      detect env p = Inl (ValueError (S ''Formato no soportado: '' @ str_lower env (path_suffix env p) @
         S ''. Soportados: '' @ join (S '', '') (map fst supported_extensions)))) \<and>
   (fs_size env p = Some n \<and> map_of supported_extensions (str_lower env (path_suffix env p)) = Some f \<longrightarrow>
      detect env p = Inr (f, case guess_type env p of
                               None \<Rightarrow> S ''application/octet-stream''
                             | Some m \<Rightarrow> if m = [] then S ''application/octet-stream'' else m))"
  using formato_nonempty[of "str_lower env (path_suffix env p)" f]
  by (auto simp add: detect_def unsupported_message_def Let_def S_def split: option.splits)

theorem detect_cases_witness:
  "detect empty_csv_env (S ''otro.CSV'') =
     Inl (FileNotFoundError (S ''Archivo no encontrado: otro.CSV'')) \<and>
   detect doc_env (S ''notas.doc'') =
     Inl (ValueError (S (''Formato no soportado: .doc. Soportados: .csv, .txt, .xls, .xlsx, '' @
        ''.xlsm, .ofx, .pdf, .jpg, .jpeg, .png, .webp, .gif, .html, .htm''))) \<and>
   detect empty_csv_env (S ''vacio.csv'') = Inr (S ''csv'', S ''text/csv'')"
proof -
  have a: "fs_size empty_csv_env (S ''otro.CSV'') = None \<and>
      map_of supported_extensions (str_lower empty_csv_env (path_suffix empty_csv_env (S ''otro.CSV''))) \<noteq> None"
    by (simp add: empty_csv_env_def supported_extensions_def S_def ascii_lower_def)
  have b: "fs_size doc_env (S ''notas.doc'') \<noteq> None \<and>
      map_of supported_extensions (str_lower doc_env (path_suffix doc_env (S ''notas.doc''))) = None"
    by (simp add: doc_env_def supported_extensions_def S_def ascii_lower_def)
  have c: "fs_size empty_csv_env (S ''vacio.csv'') = Some 0 \<and>
      map_of supported_extensions (str_lower empty_csv_env (path_suffix empty_csv_env (S ''vacio.csv''))) =
        Some (S ''csv'')"
    by (simp add: empty_csv_env_def supported_extensions_def S_def ascii_lower_def)
  have a': "detect empty_csv_env (S ''otro.CSV'') =
      Inl (FileNotFoundError (S ''Archivo no encontrado: otro.CSV''))"
    using a detect_cases [of empty_csv_env "S ''otro.CSV''"] by (simp add: S_def)
  have b': "detect doc_env (S ''notas.doc'') =
     Inl (ValueError (S (''Formato no soportado: .doc. Soportados: .csv, .txt, .xls, .xlsx, '' @
        ''.xlsm, .ofx, .pdf, .jpg, .jpeg, .png, .webp, .gif, .html, .htm'')))"
    using b detect_cases [of doc_env "S ''notas.doc''"]
    by (simp add: S_def doc_env_def ascii_lower_def supported_extensions_def)
  have c': "detect empty_csv_env (S ''vacio.csv'') = Inr (S ''csv'', S ''text/csv'')"
    using c detect_cases [of empty_csv_env "S ''vacio.csv''" 0 "S ''csv''"]
    by (simp add: empty_csv_env_def S_def)
  from a' b' c' show ?thesis by simp
qed

section \<open>Properties of the classification cascade\<close>

subsection \<open>The rule phase\<close>


















lemma distinct_filter_one:
  "distinct (map f xs) \<Longrightarrow> x \<in> set xs \<Longrightarrow> filter (\<lambda>y. f y = f x) xs = [x]"
proof (induction xs)
  case Nil then show ?case by simp
next
  case (Cons a xs)
  show ?case
  proof (cases "a = x")
    case True
    with Cons.prems have "f x \<notin> f ` set xs" by simp
    then have "\<forall>y \<in> set xs. f y \<noteq> f x" by (metis imageI)
    then have "filter (\<lambda>y. f y = f x) xs = []" by (simp add: filter_empty_conv)
    with True show ?thesis by simp
  next
    case False
    with Cons.prems have "x \<in> set xs" "f a \<noteq> f x" "distinct (map f xs)" by auto
    with Cons.IH show ?thesis by simp
  qed
qed

subsection \<open>The later phases\<close>



















lemma prepare_review_status:
  "status (prepare_review st) =
     Some (if filter (\<lambda>c. confianza c < (case review_threshold st of None \<Rightarrow> 75 / 100 | Some t \<Rightarrow> t))
                (clasificaciones st) \<noteq> [] then S ''review'' else S ''completing'')"
  by (simp add: prepare_review_def Let_def)














lemma save_results_Inl:
  "fst (save_results env s5 db) = Inl e \<Longrightarrow>
   stored (snd (save_results env s5 db)) = stored db \<and>
   commits (snd (save_results env s5 db)) = commits db"
  by (cases "db_commit env") (simp_all add: save_results_def Let_def)

lemma ainvoke_stage_raises:
  assumes "load_data env st = Inl e \<or>
     (\<exists>s1. load_data env st = Inr s1 \<and> apply_rules env s1 = Inl e) \<or>
     (\<exists>s1 s2. load_data env st = Inr s1 \<and> apply_rules env s1 = Inr s2 \<and>
        check_history env s2 = Inl e) \<or>
     (\<exists>s1 s2 s3. load_data env st = Inr s1 \<and> apply_rules env s1 = Inr s2 \<and>
        check_history env s2 = Inr s3 \<and> llm_classify env s3 = Inl e) \<or>
     (\<exists>s1 s2 s3 s4. load_data env st = Inr s1 \<and> apply_rules env s1 = Inr s2 \<and>
        check_history env s2 = Inr s3 \<and> llm_classify env s3 = Inr s4 \<and>
        \<not> pause (prepare_review s4) \<and> fst (save_results env (prepare_review s4) db) = Inl e)"
  shows "fst (ainvoke env st db) = Inl e \<and>
         stored (snd (ainvoke env st db)) = stored db \<and>
         commits (snd (ainvoke env st db)) = commits db"
  using assms
proof (elim disjE exE conjE)
  assume "load_data env st = Inl e"
  then show ?thesis by (simp add: ainvoke_def cascade_def)
next
  fix s1 assume "load_data env st = Inr s1" "apply_rules env s1 = Inl e"
  then show ?thesis by (simp add: ainvoke_def cascade_def)
next
  fix s1 s2 assume "load_data env st = Inr s1" "apply_rules env s1 = Inr s2"
    "check_history env s2 = Inl e"
  then show ?thesis by (simp add: ainvoke_def cascade_def)
next
  fix s1 s2 s3 assume "load_data env st = Inr s1" "apply_rules env s1 = Inr s2"
    "check_history env s2 = Inr s3" "llm_classify env s3 = Inl e"
  then show ?thesis by (simp add: ainvoke_def cascade_def)
next
  fix s1 s2 s3 s4 assume a: "load_data env st = Inr s1" "apply_rules env s1 = Inr s2"
    "check_history env s2 = Inr s3" "llm_classify env s3 = Inr s4"
    "\<not> pause (prepare_review s4)" and sv: "fst (save_results env (prepare_review s4) db) = Inl e"
  from a have "ainvoke env st db = save_results env (prepare_review s4) db"
    by (simp add: ainvoke_def cascade_def)
  with sv save_results_Inl[OF sv] show ?thesis by simp
qed

subsection \<open>The rule phase\<close>




subsection \<open>The cascade as a whole\<close>




subsection \<open>Review gating\<close>




subsection \<open>A stage that raises\<close>

text \<open>
  Claim C8, as worded, has the returned state preserve the last good pipeline state.
  With the classifier out of service, the run of the example fails in the external
  phase, after the rule and history phases have decided two records; the state that
  \<open>run\<close> returns has status \<open>error\<close> and the fault's text, but it is the state the run
  was given, not the state the history phase left: it holds no decision at all.
\<close>

theorem run_error_counterexample:
  "load_data demo_env_down (ensure_session_id demo_env_down demo_initial) =
     Inr (demo_loaded\<lparr>session_id := Some (S ''s1'')\<rparr>) \<and>
   apply_rules demo_env_down (demo_loaded\<lparr>session_id := Some (S ''s1'')\<rparr>) =
     Inr (demo_s2\<lparr>session_id := Some (S ''s1'')\<rparr>) \<and>
   check_history demo_env_down (demo_s2\<lparr>session_id := Some (S ''s1'')\<rparr>) =
     Inr (demo_s3\<lparr>session_id := Some (S ''s1'')\<rparr>) \<and>
   clasificaciones (demo_s3\<lparr>session_id := Some (S ''s1'')\<rparr>) = [demo_d1, demo_d2] \<and>
   llm_classify demo_env_down (demo_s3\<lparr>session_id := Some (S ''s1'')\<rparr>) =
     Inl (RuntimeError (S ''503 Service Unavailable'')) \<and>
   fst (run demo_env_down demo_initial demo_db) =
     demo_initial\<lparr>session_id := Some (S ''s1''), status := Some (S ''error''),
                  error := Some (S ''503 Service Unavailable'')\<rparr> \<and>
   fst (run demo_env_down demo_initial demo_db) \<noteq>
     demo_s3\<lparr>session_id := Some (S ''s1''), status := Some (S ''error''),
             error := Some (S ''503 Service Unavailable'')\<rparr> \<and>
   clasificaciones (fst (run demo_env_down demo_initial demo_db)) = []"
  by code_simp

text \<open>
  Claim C8, amended. When a stage of the graph raises (\<open>load_data\<close>, \<open>apply_rules\<close>,
  \<open>check_history\<close>, \<open>llm_classify\<close>, or \<open>save_results\<close> when the run does not pause),
  \<open>run\<close> returns the initial state (with its session id), in status \<open>error\<close> and with
  the text of the exception under \<open>error\<close>: the fault is reported, what the stages had
  computed is not, and nothing has been stored or committed.
\<close>

theorem run_error_state:
  assumes "load_data env (ensure_session_id env initial_state) = Inl e \<or>
     (\<exists>s1. load_data env (ensure_session_id env initial_state) = Inr s1 \<and>
        apply_rules env s1 = Inl e) \<or>
     (\<exists>s1 s2. load_data env (ensure_session_id env initial_state) = Inr s1 \<and>
        apply_rules env s1 = Inr s2 \<and> check_history env s2 = Inl e) \<or>
     (\<exists>s1 s2 s3. load_data env (ensure_session_id env initial_state) = Inr s1 \<and>
        apply_rules env s1 = Inr s2 \<and> check_history env s2 = Inr s3 \<and>
        llm_classify env s3 = Inl e) \<or>
     (\<exists>s1 s2 s3 s4. load_data env (ensure_session_id env initial_state) = Inr s1 \<and>
        apply_rules env s1 = Inr s2 \<and> check_history env s2 = Inr s3 \<and>
        llm_classify env s3 = Inr s4 \<and> \<not> pause (prepare_review s4) \<and>
        fst (save_results env (prepare_review s4) db) = Inl e)"
  shows "fst (run env initial_state db) =
           (ensure_session_id env initial_state)
             \<lparr>status := Some (S ''error''), error := Some (error_text e)\<rparr> \<and>
         stored (snd (run env initial_state db)) = stored db \<and>
         commits (snd (run env initial_state db)) = commits db"
proof -
  obtain r db' where a: "ainvoke env (ensure_session_id env initial_state) db = (r, db')"
    by (cases "ainvoke env (ensure_session_id env initial_state) db")
  from ainvoke_stage_raises[OF assms] a
  have "r = Inl e" "stored db' = stored db" "commits db' = commits db" by simp_all
  with a show ?thesis by (simp add: run_def Let_def)
qed

text \<open>The run of the example with the classifier out of service: the fourth stage raises.\<close>

theorem run_error_state_witness:
  "load_data demo_env_down (ensure_session_id demo_env_down demo_initial) =
     Inr (demo_loaded\<lparr>session_id := Some (S ''s1'')\<rparr>) \<and>
   apply_rules demo_env_down (demo_loaded\<lparr>session_id := Some (S ''s1'')\<rparr>) =
     Inr (demo_s2\<lparr>session_id := Some (S ''s1'')\<rparr>) \<and>
   check_history demo_env_down (demo_s2\<lparr>session_id := Some (S ''s1'')\<rparr>) =
     Inr (demo_s3\<lparr>session_id := Some (S ''s1'')\<rparr>) \<and>
   llm_classify demo_env_down (demo_s3\<lparr>session_id := Some (S ''s1'')\<rparr>) =
     Inl (RuntimeError (S ''503 Service Unavailable'')) \<and>
   fst (run demo_env_down demo_initial demo_db) =
     (ensure_session_id demo_env_down demo_initial)
       \<lparr>status := Some (S ''error''),
        error := Some (error_text (RuntimeError (S ''503 Service Unavailable'')))\<rparr> \<and>
   stored (snd (run demo_env_down demo_initial demo_db)) = stored demo_db \<and>
   commits (snd (run demo_env_down demo_initial demo_db)) = commits demo_db"
proof -
  have h1: "load_data demo_env_down (ensure_session_id demo_env_down demo_initial) =
     Inr (demo_loaded\<lparr>session_id := Some (S ''s1'')\<rparr>)" by code_simp
  have h2: "apply_rules demo_env_down (demo_loaded\<lparr>session_id := Some (S ''s1'')\<rparr>) =
     Inr (demo_s2\<lparr>session_id := Some (S ''s1'')\<rparr>)" by code_simp
  have h3: "check_history demo_env_down (demo_s2\<lparr>session_id := Some (S ''s1'')\<rparr>) =
     Inr (demo_s3\<lparr>session_id := Some (S ''s1'')\<rparr>)" by code_simp
  have h4: "llm_classify demo_env_down (demo_s3\<lparr>session_id := Some (S ''s1'')\<rparr>) =
     Inl (RuntimeError (S ''503 Service Unavailable''))" by code_simp
  have h: "\<exists>s1 s2 s3. load_data demo_env_down (ensure_session_id demo_env_down demo_initial) = Inr s1 \<and>
        apply_rules demo_env_down s1 = Inr s2 \<and> check_history demo_env_down s2 = Inr s3 \<and>
        llm_classify demo_env_down s3 = Inl (RuntimeError (S ''503 Service Unavailable''))"
    using h1 h2 h3 h4 by blast
  from run_error_state [of demo_env_down demo_initial
      "RuntimeError (S ''503 Service Unavailable'')" demo_db] h
  have "fst (run demo_env_down demo_initial demo_db) =
     (ensure_session_id demo_env_down demo_initial)
       \<lparr>status := Some (S ''error''),
        error := Some (error_text (RuntimeError (S ''503 Service Unavailable'')))\<rparr> \<and>
   stored (snd (run demo_env_down demo_initial demo_db)) = stored demo_db \<and>
   commits (snd (run demo_env_down demo_initial demo_db)) = commits demo_db" by blast
  with h1 h2 h3 h4 show ?thesis by (intro conjI) (assumption | (elim conjE, assumption))+
qed

end
